theory Spec2Isabelle
  imports Main
begin

section \<open>The source-control menu of the Git plugin (GitSourceControlMenu.cpp)\<close>

text \<open>
  The menu object wires the Push, Sync, Revert and Refresh entries to asynchronous
  source-control operations and unlinks and reloads in-memory packages around the
  operations that rewrite the working tree. Its handlers are embedded as functions on an
  explicit state. Every call into the editor, the asset system or the git command line is
  appended to a trace, in the order in which the source makes it; what the host answers
  to each call is a field of a record of host answers.
\<close>

subsection \<open>Data\<close>

text \<open>
  A \<open>UPackage*\<close>: the handle of a resident package. The handlers read its name and
  whether it holds a map; whether it is fully loaded is editor state that changes.
\<close>

record UPackage =
  GetName :: string
  ContainsMap :: bool

text \<open>The four operations the menu creates and what \<open>GetName()\<close> returns for them.\<close>

datatype Operation = FSync | FGitPush | FRevert | FUpdateStatus

fun OperationName :: "Operation \<Rightarrow> string" where
  "OperationName FSync = ''Sync''"
| "OperationName FGitPush = ''Push''"
| "OperationName FRevert = ''Revert''"
| "OperationName FUpdateStatus = ''UpdateStatus''"

datatype ECommandResult = Cancelled | Failed | Succeeded

datatype EAppReturnType = Ok | Cancel

text \<open>
  The calls the handlers make, as trace events. \<open>EvSuccessNotification\<close> and
  \<open>EvFailureNotification\<close> are the bodies of \<open>DisplaySucessNotification\<close> and
  \<open>DisplayFailureNotification\<close> (a notification and a log line, lines 502 to 530).
\<close>

datatype Event =
    EvSaveDirtyPackages
  | EvGetBranchName
  | EvRunCommand string "string list"
  | EvMessageDialog string
  | EvLogError string
  | EvLogWarning string
  | EvLogNotify
  | EvLogNum string nat
  | EvLogTemp string string
  | EvFlushAsyncLoading
  | EvFullyLoad UPackage
  | EvResetLoaders UPackage
  | EvReloadPackages "UPackage list"
  | EvUnloadPackages "UPackage list"
  | EvExecute Operation
  | EvAddNotification
  | EvExpireAndFadeout
  | EvSuccessNotification string
  | EvFailureNotification string

text \<open>
  The members of \<open>FGitSourceControlMenu\<close> that the handlers read and write
  (\<open>OperationInProgressNotification\<close> is a weak pointer; the field is its \<open>IsValid()\<close>),
  the set of packages the editor has fully loaded, and the trace.
\<close>

record State =
  bStashMadeBeforeSync :: bool
  PackagesToReload :: "UPackage list"
  OperationInProgressNotification :: bool
  FullyLoaded :: "UPackage set"
  Trace :: "Event list"

text \<open>
  What the host answers during one handler: the asset system (\<open>FindPackage\<close>,
  \<open>FPackageName\<close>, \<open>FPaths\<close>), the editor dialogs, the git command line and the
  provider. \<open>TryConvertFilenameToLongPackageName\<close> gives \<open>Inr\<close> the package name or
  \<open>Inl\<close> the failure reason. The status command runs twice in a sync, at line 295 and at
  line 210, so it has two answers.
\<close>

record Host =
  FindPackage :: "string \<Rightarrow> UPackage option"
  FindPackagesInDirectory :: "string list"
  TryConvertFilenameToLongPackageName :: "string \<Rightarrow> string + string"
  LongPackageNameToFilename :: "string \<Rightarrow> string \<Rightarrow> string"
  ConvertRelativePathToFull :: "string \<Rightarrow> string \<Rightarrow> string"
  FileExists :: "string \<Rightarrow> bool"
  MapPackageExtension :: string
  AssetPackageExtension :: string
  SaveDirtyPackagesResult :: bool
  DirtyPackagesNum :: nat
  StashDialogChoice :: EAppReturnType
  RevertDialogChoice :: EAppReturnType
  PathToRepositoryRoot :: string
  BranchName :: string
  DiffOutput :: "string list"
  StatusOutput :: "string list"
  StashStatusOk :: bool
  StashStatusOutput :: "string list"
  StashSaveOk :: bool
  StashPopOk :: bool
  ExecuteResult :: ECommandResult
  AddNotificationValid :: bool

definition emit :: "Event list \<Rightarrow> State \<Rightarrow> State" where
  "emit es s = s\<lparr>Trace := Trace s @ es\<rparr>"

text \<open>The events a step appended to the trace of the state it started from.\<close>

definition emitted :: "State \<Rightarrow> State \<Rightarrow> Event list" where
  "emitted s s' = drop (length (Trace s)) (Trace s')"

subsection \<open>Strings\<close>

text \<open>
  \<open>FString::StartsWith\<close> compares without regard to case unless told otherwise, and
  \<open>RightChop(n)\<close> drops the first \<open>n\<close> characters (all of a shorter string).
\<close>

definition ToLower :: "char \<Rightarrow> char" where
  "ToLower c = (let n = of_char c :: nat in
     if 65 \<le> n \<and> n \<le> 90 then char_of (n + 32) else c)"

definition StartsWith :: "string \<Rightarrow> string \<Rightarrow> bool" where
  "StartsWith str prefix =
     (prefix \<noteq> [] \<and> length prefix \<le> length str \<and>
      map ToLower (take (length prefix) str) = map ToLower prefix)"

definition RightChop :: "nat \<Rightarrow> string \<Rightarrow> string" where
  "RightChop n str = drop n str"

subsection \<open>SaveDirtyPackages, lines 91 to 113\<close>

definition SaveDirtyPackages :: "Host \<Rightarrow> State \<Rightarrow> bool \<times> State" where
  "SaveDirtyPackages h s =
     (let s1 = emit [EvSaveDirtyPackages] s;
          bSaved = SaveDirtyPackagesResult h
      in if bSaved then (DirtyPackagesNum h = 0, s1) else (bSaved, s1))"

subsection \<open>ListAllPackages, lines 116 to 138\<close>

fun ListAllPackages_loop ::
  "Host \<Rightarrow> string list \<Rightarrow> string list \<times> State \<Rightarrow> string list \<times> State" where
  "ListAllPackages_loop h [] (PackageNames, s) = (PackageNames, s)"
| "ListAllPackages_loop h (Path # rest) (PackageNames, s) =
     (case TryConvertFilenameToLongPackageName h Path of
        Inr PackageName \<Rightarrow> ListAllPackages_loop h rest (PackageNames @ [PackageName], s)
      | Inl FailureReason \<Rightarrow>
          ListAllPackages_loop h rest (PackageNames, emit [EvLogError FailureReason] s))"

definition ListAllPackages :: "Host \<Rightarrow> State \<Rightarrow> string list \<times> State" where
  "ListAllPackages h s = ListAllPackages_loop h (FindPackagesInDirectory h) ([], s)"

subsection \<open>UnlinkPackages, lines 141 to 170\<close>

text \<open>
  \<open>Package->FullyLoad()\<close> leaves the package fully loaded. One round of the loop at
  lines 150 to 165 for a package that was found:
\<close>

definition UnlinkPackage :: "UPackage \<Rightarrow> State \<Rightarrow> State" where
  "UnlinkPackage Package s =
     (let s1 = (if Package \<notin> FullyLoaded s
                then (emit [EvFlushAsyncLoading, EvFullyLoad Package] s)
                       \<lparr>FullyLoaded := insert Package (FullyLoaded s)\<rparr>
                else s)
      in emit [EvResetLoaders Package] s1)"

fun UnlinkPackages_loop ::
  "Host \<Rightarrow> string list \<Rightarrow> UPackage list \<times> State \<Rightarrow> UPackage list \<times> State" where
  "UnlinkPackages_loop h [] (LoadedPackages, s) = (LoadedPackages, s)"
| "UnlinkPackages_loop h (PackageName # rest) (LoadedPackages, s) =
     (case FindPackage h PackageName of
        None \<Rightarrow> UnlinkPackages_loop h rest (LoadedPackages, s)
      | Some Package \<Rightarrow>
          UnlinkPackages_loop h rest (LoadedPackages @ [Package], UnlinkPackage Package s))"

definition UnlinkPackages :: "Host \<Rightarrow> string list \<Rightarrow> State \<Rightarrow> UPackage list \<times> State" where
  "UnlinkPackages h InPackageNames s =
     (if length InPackageNames > 0
      then (let (LoadedPackages, s1) = UnlinkPackages_loop h InPackageNames ([], s)
            in (LoadedPackages,
                emit [EvLogNum ''Reseted Loader for %d Packages'' (length LoadedPackages)] s1))
      else ([], s))"

subsection \<open>ReloadPackages, lines 172 to 195\<close>

definition PackageFilename :: "Host \<Rightarrow> UPackage \<Rightarrow> string" where
  "PackageFilename h InPackage =
     (let PackageExtension =
            (if ContainsMap InPackage then MapPackageExtension h else AssetPackageExtension h)
      in LongPackageNameToFilename h (GetName InPackage) PackageExtension)"

text \<open>
  \<open>InPackagesToReload.RemoveAll\<close> with the predicate of lines 178 to 188: one pass over
  the array that keeps the packages whose file exists, in their order, and collects the
  others in \<open>PackagesToUnload\<close>. The result is (kept, \<open>PackagesToUnload\<close>).
\<close>

fun RemoveAll_deleted ::
  "Host \<Rightarrow> UPackage list \<Rightarrow> UPackage list \<times> UPackage list \<Rightarrow> UPackage list \<times> UPackage list" where
  "RemoveAll_deleted h [] (Kept, PackagesToUnload) = (Kept, PackagesToUnload)"
| "RemoveAll_deleted h (InPackage # rest) (Kept, PackagesToUnload) =
     (if \<not> FileExists h (PackageFilename h InPackage)
      then RemoveAll_deleted h rest (Kept, PackagesToUnload @ [InPackage])
      else RemoveAll_deleted h rest (Kept @ [InPackage], PackagesToUnload))"

text \<open>
  The parameter is a reference to the caller's array: the first component of the result
  is the array as the call leaves it.
\<close>

definition ReloadPackages :: "Host \<Rightarrow> UPackage list \<Rightarrow> State \<Rightarrow> UPackage list \<times> State" where
  "ReloadPackages h InPackagesToReload s =
     (let s1 = emit [EvLogNum ''Reloading %d Packages...'' (length InPackagesToReload)] s;
          (Kept, PackagesToUnload) = RemoveAll_deleted h InPackagesToReload ([], []);
          s2 = emit [EvReloadPackages Kept] s1;
          s3 = emit [EvUnloadPackages PackagesToUnload] s2
      in (Kept, s3))"

subsection \<open>Stashing, lines 198 to 256\<close>

definition ParametersStatus :: "string list" where
  "ParametersStatus = [''--porcelain --untracked-files=no'']"

definition ParametersStashSave :: "string list" where
  "ParametersStashSave =
     [''save '' @ [CHR 0x22] @ ''Stashed by Unreal Engine Git Plugin'' @ [CHR 0x22]]"

definition StashAwayAnyModifications :: "Host \<Rightarrow> State \<Rightarrow> bool \<times> State" where
  "StashAwayAnyModifications h s =
     (let s1 = emit [EvRunCommand ''status'' ParametersStatus] s
      in if StashStatusOk h \<and> length (StashStatusOutput h) > 0
         then (let s2 = emit [EvMessageDialog
                   ''Stash (save) all modifications of the working tree? Required to Sync/Pull!''] s1
               in if StashDialogChoice h = Ok
                  then (let s3 = emit [EvRunCommand ''stash'' ParametersStashSave] s2;
                            s4 = s3\<lparr>bStashMadeBeforeSync := StashSaveOk h\<rparr>
                        in if \<not> bStashMadeBeforeSync s4
                           then (True, emit [EvLogWarning ''Stashing away modifications failed!'',
                                             EvLogNotify] s4)
                           else (True, s4))
                  else (False, s2))
         else (True, s1))"

definition ReApplyStashedModifications :: "Host \<Rightarrow> State \<Rightarrow> State" where
  "ReApplyStashedModifications h s =
     (if bStashMadeBeforeSync s
      then (let s1 = emit [EvRunCommand ''stash'' [''pop'']] s
            in if \<not> StashPopOk h
               then emit [EvLogWarning ''Unstashing previously saved modifications failed!'',
                          EvLogNotify] s1
               else s1)
      else s)"

subsection \<open>Notifications, lines 475 to 530\<close>

definition DisplayInProgressNotification :: "Host \<Rightarrow> State \<Rightarrow> State" where
  "DisplayInProgressNotification h s =
     (if \<not> OperationInProgressNotification s
      then (emit [EvAddNotification] s)\<lparr>OperationInProgressNotification := AddNotificationValid h\<rparr>
      else s)"

definition RemoveInProgressNotification :: "State \<Rightarrow> State" where
  "RemoveInProgressNotification s =
     (if OperationInProgressNotification s
      then (emit [EvExpireAndFadeout] s)\<lparr>OperationInProgressNotification := False\<rparr>
      else s)"

definition DisplaySucessNotification :: "string \<Rightarrow> State \<Rightarrow> State" where
  "DisplaySucessNotification InOperationName s = emit [EvSuccessNotification InOperationName] s"

definition DisplayFailureNotification :: "string \<Rightarrow> State \<Rightarrow> State" where
  "DisplayFailureNotification InOperationName s = emit [EvFailureNotification InOperationName] s"

definition InProgressWarning :: "State \<Rightarrow> State" where
  "InProgressWarning s =
     emit [EvLogWarning ''Source control operation already in progress'', EvLogNotify] s"

subsection \<open>SyncClicked, lines 258 to 363\<close>

text \<open>Lines 281 to 304: the output of the diff, then the selected lines of the status.\<close>

fun LocalChangedFiles_loop :: "string list \<Rightarrow> string list \<Rightarrow> string list" where
  "LocalChangedFiles_loop [] ChangedFiles = ChangedFiles"
| "LocalChangedFiles_loop (Filename # rest) ChangedFiles =
     (if StartsWith Filename '' M'' \<or> StartsWith Filename '' A''
      then LocalChangedFiles_loop rest (ChangedFiles @ [RightChop 3 Filename])
      else LocalChangedFiles_loop rest ChangedFiles)"

definition DiffParameters :: "Host \<Rightarrow> string list" where
  "DiffParameters h = [''--stat'', ''--name-only'', ''..origin/'' @ BranchName h]"

definition SyncChangedFiles :: "Host \<Rightarrow> State \<Rightarrow> string list \<times> State" where
  "SyncChangedFiles h s =
     (let s1 = emit [EvGetBranchName] s;
          s2 = emit [EvRunCommand ''diff'' (DiffParameters h)] s1;
          ChangedFiles = DiffOutput h;
          s3 = emit [EvRunCommand ''status'' ParametersStatus] s2;
          LocalChangedFiles = StatusOutput h
      in (LocalChangedFiles_loop LocalChangedFiles ChangedFiles, s3))"

text \<open>Lines 307 to 317: the loop that turns the changed files into package names.\<close>

fun PackagesToUnlink_loop ::
  "Host \<Rightarrow> string list \<Rightarrow> string list \<times> State \<Rightarrow> string list \<times> State" where
  "PackagesToUnlink_loop h [] (PackagesToUnlink, s) = (PackagesToUnlink, s)"
| "PackagesToUnlink_loop h (Filename # rest) (PackagesToUnlink, s) =
     (let AbsolutePath = ConvertRelativePathToFull h (PathToRepositoryRoot h) Filename
      in case TryConvertFilenameToLongPackageName h AbsolutePath of
           Inr PackageName \<Rightarrow>
             PackagesToUnlink_loop h rest
               (PackagesToUnlink @ [PackageName], emit [EvLogTemp AbsolutePath PackageName] s)
         | Inl FailureReason \<Rightarrow> PackagesToUnlink_loop h rest (PackagesToUnlink, s))"

text \<open>
  Lines 270 to 319: the changed files are resolved to package names, the resident ones are
  unlinked, and \<open>PackagesToReload\<close> is assigned.
\<close>

definition SyncPrepare :: "Host \<Rightarrow> State \<Rightarrow> State" where
  "SyncPrepare h s1 =
     (let (ChangedFiles, s2) = SyncChangedFiles h s1;
          (PackagesToUnlink, s3) = PackagesToUnlink_loop h ChangedFiles ([], s2);
          (LoadedPackages, s4) = UnlinkPackages h PackagesToUnlink s3
      in s4\<lparr>PackagesToReload := LoadedPackages\<rparr>)"

text \<open>Lines 325 to 341: the sync operation is handed to the provider.\<close>

definition SyncDispatch :: "Host \<Rightarrow> State \<Rightarrow> State" where
  "SyncDispatch h s6 =
     (let s7 = emit [EvExecute FSync] s6
      in if ExecuteResult h = Succeeded
         then DisplayInProgressNotification h s7
         else (let s8 = DisplayFailureNotification (OperationName FSync) s7;
                   (Kept, s9) = ReloadPackages h (PackagesToReload s8) s8
               in s9\<lparr>PackagesToReload := Kept\<rparr>))"

definition SyncClicked :: "Host \<Rightarrow> State \<Rightarrow> State" where
  "SyncClicked h s =
     (if \<not> OperationInProgressNotification s
      then (let (bSaved, s1) = SaveDirtyPackages h s
            in if bSaved
               then (let s5 = SyncPrepare h s1;
                         (bStashed, s6) = StashAwayAnyModifications h s5
                     in if bStashed
                        then SyncDispatch h s6
                        else emit [EvLogWarning
                                     ''Stash away all modifications before attempting to Sync!'',
                                   EvLogNotify] s6)
               else emit [EvLogWarning ''Save All Assets before attempting to Sync!'',
                          EvLogNotify] s1)
      else InProgressWarning s)"

subsection \<open>PushClicked, RevertClicked and RefreshClicked, lines 365 to 472\<close>

definition PushClicked :: "Host \<Rightarrow> State \<Rightarrow> State" where
  "PushClicked h s =
     (if \<not> OperationInProgressNotification s
      then (let s1 = emit [EvExecute FGitPush] s
            in if ExecuteResult h = Succeeded
               then DisplayInProgressNotification h s1
               else DisplayFailureNotification (OperationName FGitPush) s1)
      else InProgressWarning s)"

definition RevertClicked :: "Host \<Rightarrow> State \<Rightarrow> State" where
  "RevertClicked h s =
     (if \<not> OperationInProgressNotification s
      then (let s1 = emit [EvMessageDialog ''Revert all modifications of the working tree?''] s
            in if RevertDialogChoice h = Ok
               then (let (PackageNames, s2) = ListAllPackages h s1;
                         (LoadedPackages, s3) = UnlinkPackages h PackageNames s2;
                         s4 = s3\<lparr>PackagesToReload := LoadedPackages\<rparr>;
                         s5 = emit [EvExecute FRevert] s4
                     in if ExecuteResult h = Succeeded
                        then DisplayInProgressNotification h s5
                        else (let s6 = DisplayFailureNotification (OperationName FRevert) s5;
                                  (Kept, s7) = ReloadPackages h (PackagesToReload s6) s6
                              in s7\<lparr>PackagesToReload := Kept\<rparr>))
               else s1)
      else InProgressWarning s)"

definition RefreshClicked :: "Host \<Rightarrow> State \<Rightarrow> State" where
  "RefreshClicked h s =
     (if \<not> OperationInProgressNotification s
      then (let s1 = emit [EvExecute FUpdateStatus] s
            in if ExecuteResult h = Succeeded
               then DisplayInProgressNotification h s1
               else DisplayFailureNotification (OperationName FUpdateStatus) s1)
      else InProgressWarning s)"

subsection \<open>OnSourceControlOperationComplete, lines 532 to 553\<close>

definition OnSourceControlOperationComplete ::
  "Host \<Rightarrow> Operation \<Rightarrow> ECommandResult \<Rightarrow> State \<Rightarrow> State" where
  "OnSourceControlOperationComplete h InOperation InResult s =
     (let s1 = RemoveInProgressNotification s;
          s2 = (if OperationName InOperation = ''Sync'' \<or> OperationName InOperation = ''Revert''
                then (let s3 = ReApplyStashedModifications h s1;
                          (Kept, s4) = ReloadPackages h (PackagesToReload s3) s3
                      in s4\<lparr>PackagesToReload := Kept\<rparr>)
                else s1)
      in if InResult = Succeeded
         then DisplaySucessNotification (OperationName InOperation) s2
         else DisplayFailureNotification (OperationName InOperation) s2)"

section \<open>The loops in closed form\<close>

text \<open>
  What a conversion of a path yields: the package name when it succeeds, the error line of
  \<open>ListAllPackages\<close> when it fails, and the log line of the loop of \<open>SyncClicked\<close> when
  it succeeds.
\<close>

definition PackageNameOf :: "Host \<Rightarrow> string \<Rightarrow> string option" where
  "PackageNameOf h Path =
     (case TryConvertFilenameToLongPackageName h Path of
        Inr PackageName \<Rightarrow> Some PackageName | Inl FailureReason \<Rightarrow> None)"

definition FailureOf :: "Host \<Rightarrow> string \<Rightarrow> Event option" where
  "FailureOf h Path =
     (case TryConvertFilenameToLongPackageName h Path of
        Inr PackageName \<Rightarrow> None | Inl FailureReason \<Rightarrow> Some (EvLogError FailureReason))"

definition SuccessLogOf :: "Host \<Rightarrow> string \<Rightarrow> Event option" where
  "SuccessLogOf h Path =
     (case TryConvertFilenameToLongPackageName h Path of
        Inr PackageName \<Rightarrow> Some (EvLogTemp Path PackageName) | Inl FailureReason \<Rightarrow> None)"

definition AbsolutePathOf :: "Host \<Rightarrow> string \<Rightarrow> string" where
  "AbsolutePathOf h Filename = ConvertRelativePathToFull h (PathToRepositoryRoot h) Filename"

text \<open>The calls of the loop of \<open>UnlinkPackages\<close> for the packages it found.\<close>

fun unlink_events :: "UPackage set \<Rightarrow> UPackage list \<Rightarrow> Event list" where
  "unlink_events F [] = []"
| "unlink_events F (P # Ps) =
     (if P \<in> F then [] else [EvFlushAsyncLoading, EvFullyLoad P]) @
     EvResetLoaders P # unlink_events (insert P F) Ps"

text \<open>
  A replay of a trace against the set of fully loaded packages: every \<open>FullyLoad\<close> comes
  right after a \<open>FlushAsyncLoading\<close>, and every \<open>ResetLoaders\<close> is for a package that was
  fully loaded at the start or has been fully loaded since. The flag says whether the
  previous call was the flush.
\<close>

fun detach_safe :: "UPackage set \<Rightarrow> bool \<Rightarrow> Event list \<Rightarrow> bool" where
  "detach_safe F flushed [] = True"
| "detach_safe F flushed (e # es) =
     (case e of
        EvFlushAsyncLoading \<Rightarrow> detach_safe F True es
      | EvFullyLoad P \<Rightarrow> flushed \<and> detach_safe (insert P F) False es
      | EvResetLoaders P \<Rightarrow> P \<in> F \<and> detach_safe F False es
      | _ \<Rightarrow> detach_safe F False es)"

definition FilePresent :: "Host \<Rightarrow> UPackage \<Rightarrow> bool" where
  "FilePresent h InPackage = FileExists h (PackageFilename h InPackage)"

text \<open>
  The steps of a sync as numbers on the events, to compare the order in which a trace
  makes them. \<open>click_step\<close> numbers the steps of the click handler in the order of the
  source: saving, detaching, the stash command, the dispatch. \<open>claimed_click_step\<close>
  numbers them with the stash command before the detaching. \<open>completion_step\<close> numbers
  the steps of the completion callback: the stash pop, the reload, the unload, the result
  notification. \<open>click_steps\<close> keeps the events of a trace that are steps of the click
  handler.
\<close>

fun click_step :: "Event \<Rightarrow> nat option" where
  "click_step EvSaveDirtyPackages = Some 0"
| "click_step EvFlushAsyncLoading = Some 1"
| "click_step (EvFullyLoad P) = Some 1"
| "click_step (EvResetLoaders P) = Some 1"
| "click_step (EvRunCommand cmd ps) = (if cmd = ''stash'' then Some 2 else None)"
| "click_step (EvExecute operation) = Some 3"
| "click_step e = None"

fun claimed_click_step :: "Event \<Rightarrow> nat option" where
  "claimed_click_step EvSaveDirtyPackages = Some 0"
| "claimed_click_step (EvRunCommand cmd ps) = (if cmd = ''stash'' then Some 1 else None)"
| "claimed_click_step EvFlushAsyncLoading = Some 2"
| "claimed_click_step (EvFullyLoad P) = Some 2"
| "claimed_click_step (EvResetLoaders P) = Some 2"
| "claimed_click_step (EvExecute operation) = Some 3"
| "claimed_click_step e = None"

fun completion_step :: "Event \<Rightarrow> nat option" where
  "completion_step (EvRunCommand cmd ps) = (if cmd = ''stash'' then Some 0 else None)"
| "completion_step (EvReloadPackages Ps) = Some 1"
| "completion_step (EvUnloadPackages Ps) = Some 2"
| "completion_step (EvSuccessNotification n) = Some 3"
| "completion_step (EvFailureNotification n) = Some 3"
| "completion_step e = None"

definition click_steps :: "Event list \<Rightarrow> Event list" where
  "click_steps tr = filter (\<lambda>e. click_step e \<noteq> None) tr"

definition in_order :: "(Event \<Rightarrow> nat option) \<Rightarrow> Event list \<Rightarrow> bool" where
  "in_order step tr = sorted (List.map_filter step tr)"

fun is_reconcile :: "Event \<Rightarrow> bool" where
  "is_reconcile (EvReloadPackages Ps) = True"
| "is_reconcile (EvUnloadPackages Ps) = True"
| "is_reconcile e = False"

text \<open>The packages a revert and a sync detach, from the answers of the host.\<close>

definition RevertDetached :: "Host \<Rightarrow> UPackage list" where
  "RevertDetached h =
     List.map_filter (FindPackage h)
       (List.map_filter (PackageNameOf h) (FindPackagesInDirectory h))"

definition SyncDetached :: "Host \<Rightarrow> UPackage list" where
  "SyncDetached h =
     List.map_filter (FindPackage h)
       (List.map_filter (PackageNameOf h)
          (map (AbsolutePathOf h) (LocalChangedFiles_loop (StatusOutput h) (DiffOutput h))))"

subsection \<open>A concrete editor session\<close>

text \<open>
  Two resident packages, of which \<open>/Game/b\<close> is fully loaded. The remote changed
  \<open>a.uasset\<close> and the file \<open>x\<close>, which is no package; the working tree has a modified
  \<open>b.uasset\<close> and a deleted \<open>c.uasset\<close>. After the operation only the file of
  \<open>/Game/a\<close> exists.
\<close>

definition pkgA :: UPackage where
  "pkgA = \<lparr>GetName = ''/Game/a'', ContainsMap = False\<rparr>"

definition pkgB :: UPackage where
  "pkgB = \<lparr>GetName = ''/Game/b'', ContainsMap = False\<rparr>"

definition idle :: State where
  "idle = \<lparr>bStashMadeBeforeSync = False, PackagesToReload = [],
           OperationInProgressNotification = False, FullyLoaded = {pkgB}, Trace = []\<rparr>"

definition host0 :: Host where
  "host0 = \<lparr>
     FindPackage = (\<lambda>n. if n = ''/Game/a'' then Some pkgA
                        else if n = ''/Game/b'' then Some pkgB else None),
     FindPackagesInDirectory = [''/r/a.uasset'', ''/r/b.uasset'', ''/r/x''],
     TryConvertFilenameToLongPackageName =
       (\<lambda>p. if p = ''/r/a.uasset'' then Inr ''/Game/a''
            else if p = ''/r/b.uasset'' then Inr ''/Game/b'' else Inl (''bad path '' @ p)),
     LongPackageNameToFilename = (\<lambda>n ext. n @ ext),
     ConvertRelativePathToFull = (\<lambda>root f. root @ f),
     FileExists = (\<lambda>f. f = ''/Game/a.uasset''),
     MapPackageExtension = ''.umap'',
     AssetPackageExtension = ''.uasset'',
     SaveDirtyPackagesResult = True,
     DirtyPackagesNum = 0,
     StashDialogChoice = Ok,
     RevertDialogChoice = Ok,
     PathToRepositoryRoot = ''/r/'',
     BranchName = ''main'',
     DiffOutput = [''a.uasset'', ''x''],
     StatusOutput = ['' M b.uasset'', '' D c.uasset''],
     StashStatusOk = True,
     StashStatusOutput = ['' M b.uasset'', '' D c.uasset''],
     StashSaveOk = True,
     StashPopOk = True,
     ExecuteResult = Succeeded,
     AddNotificationValid = True\<rparr>"

text \<open>The same session with the stash question answered with Cancel.\<close>

definition host_decline :: Host where
  "host_decline = host0\<lparr>StashDialogChoice := Cancel\<rparr>"

text \<open>The package a trace event detaches, if it is a \<open>ResetLoaders\<close> call.\<close>

fun reset_target :: "Event \<Rightarrow> UPackage option" where
  "reset_target (EvResetLoaders P) = Some P"
| "reset_target e = None"

text \<open>The status lines that the loop at lines 297 to 303 selects.\<close>

definition IsModifyOrAdd :: "string \<Rightarrow> bool" where
  "IsModifyOrAdd Filename = (StartsWith Filename '' M'' \<or> StartsWith Filename '' A'')"

text \<open>A session in which a sync is in progress.\<close>

definition busy :: State where
  "busy = \<lparr>bStashMadeBeforeSync = True, PackagesToReload = [pkgA, pkgB],
           OperationInProgressNotification = True, FullyLoaded = {pkgA, pkgB}, Trace = []\<rparr>"

text \<open>
  The session continued: the sync completes with success, and later, with only
  \<open>/Game/a\<close> left resident, the user reverts and the revert completes.
\<close>

definition after_sync :: State where
  "after_sync = OnSourceControlOperationComplete host0 FSync Succeeded (SyncClicked host0 idle)"

definition host_later :: Host where
  "host_later = host0\<lparr>
     FindPackage := (\<lambda>n. if n = ''/Game/a'' then Some pkgA else None),
     FindPackagesInDirectory := [''/r/a.uasset'']\<rparr>"

definition after_revert :: State where
  "after_revert =
     OnSourceControlOperationComplete host_later FRevert Succeeded
       (RevertClicked host_later after_sync)"

text \<open>
  The session with nothing changed on the remote and all local changes staged: the status
  lines carry their marker in the index column.
\<close>

definition host_staged :: Host where
  "host_staged = host0\<lparr>
     DiffOutput := [],
     StatusOutput := [''M  b.uasset'', ''MM a.uasset''],
     StashStatusOutput := [''M  b.uasset'', ''MM a.uasset'']\<rparr>"

section \<open>Lemmas\<close>

lemma map_filter_append:
  "List.map_filter f (xs @ ys) = List.map_filter f xs @ List.map_filter f ys"
  by (simp add: List.map_filter_def)

lemma ListAllPackages_loop_eq:
  "ListAllPackages_loop h ps (N, s) =
     (N @ List.map_filter (PackageNameOf h) ps,
      s\<lparr>Trace := Trace s @ List.map_filter (FailureOf h) ps\<rparr>)"
proof (induction ps arbitrary: N s)
  case Nil
  show ?case by simp
next
  case (Cons p ps)
  show ?case
    by (cases "TryConvertFilenameToLongPackageName h p")
       (simp_all add: Cons.IH PackageNameOf_def FailureOf_def emit_def)
qed

lemma PackagesToUnlink_loop_eq:
  "PackagesToUnlink_loop h fs (N, s) =
     (N @ List.map_filter (PackageNameOf h) (map (AbsolutePathOf h) fs),
      s\<lparr>Trace := Trace s @ List.map_filter (SuccessLogOf h) (map (AbsolutePathOf h) fs)\<rparr>)"
proof (induction fs arbitrary: N s)
  case Nil
  show ?case by simp
next
  case (Cons f fs)
  show ?case
    by (cases "TryConvertFilenameToLongPackageName h (AbsolutePathOf h f)")
       (simp_all add: Cons.IH PackageNameOf_def SuccessLogOf_def emit_def AbsolutePathOf_def)
qed

lemma UnlinkPackage_eq:
  "UnlinkPackage P s =
     s\<lparr>FullyLoaded := insert P (FullyLoaded s),
       Trace := Trace s @ unlink_events (FullyLoaded s) [P]\<rparr>"
  by (simp add: UnlinkPackage_def emit_def insert_absorb)

lemma unlink_events_append:
  "unlink_events F (Ps @ Qs) = unlink_events F Ps @ unlink_events (F \<union> set Ps) Qs"
  by (induction Ps arbitrary: F) simp_all

lemma UnlinkPackages_loop_eq:
  "UnlinkPackages_loop h ns (L, s) =
     (L @ List.map_filter (FindPackage h) ns,
      s\<lparr>FullyLoaded := FullyLoaded s \<union> set (List.map_filter (FindPackage h) ns),
        Trace := Trace s @ unlink_events (FullyLoaded s) (List.map_filter (FindPackage h) ns)\<rparr>)"
proof (induction ns arbitrary: L s)
  case Nil
  show ?case by simp
next
  case (Cons n ns)
  show ?case
    by (cases "FindPackage h n") (simp_all add: Cons.IH UnlinkPackage_eq)
qed

lemma UnlinkPackages_eq:
  "UnlinkPackages h ns s =
     (List.map_filter (FindPackage h) ns,
      if ns = [] then s
      else s\<lparr>FullyLoaded := FullyLoaded s \<union> set (List.map_filter (FindPackage h) ns),
             Trace := Trace s @ unlink_events (FullyLoaded s) (List.map_filter (FindPackage h) ns) @
               [EvLogNum ''Reseted Loader for %d Packages''
                  (length (List.map_filter (FindPackage h) ns))]\<rparr>)"
  by (simp add: UnlinkPackages_def UnlinkPackages_loop_eq emit_def)

lemma detach_safe_unlink_events:
  assumes "Ps \<noteq> []"
  shows "detach_safe F b (unlink_events F Ps @ es) = detach_safe (F \<union> set Ps) False es"
  using assms
proof (induction Ps arbitrary: F b)
  case Nil
  then show ?case by simp
next
  case (Cons P Ps)
  show ?case
  proof (cases "Ps = []")
    case True
    then show ?thesis by (simp add: insert_absorb)
  next
    case False
    from Cons.IH [OF False] show ?thesis by (simp add: insert_absorb)
  qed
qed

lemma LocalChangedFiles_loop_eq:
  "LocalChangedFiles_loop ls C =
     C @ map (RightChop 3) (filter (\<lambda>l. StartsWith l '' M'' \<or> StartsWith l '' A'') ls)"
  by (induction ls arbitrary: C) simp_all

lemma RemoveAll_deleted_eq:
  "RemoveAll_deleted h L (K, U) =
     (K @ filter (FilePresent h) L, U @ filter (\<lambda>P. \<not> FilePresent h P) L)"
  by (induction L arbitrary: K U) (simp_all add: FilePresent_def)

lemma ReloadPackages_eq:
  "ReloadPackages h L s =
     (filter (FilePresent h) L,
      s\<lparr>Trace := Trace s @
          [EvLogNum ''Reloading %d Packages...'' (length L),
           EvReloadPackages (filter (FilePresent h) L),
           EvUnloadPackages (filter (\<lambda>P. \<not> FilePresent h P) L)]\<rparr>)"
  by (simp add: ReloadPackages_def RemoveAll_deleted_eq emit_def)

lemma emitted_append [simp]: "emitted s (s'\<lparr>Trace := Trace s @ es\<rparr>) = es"
  by (simp add: emitted_def)

lemmas handler_defs = SaveDirtyPackages_def SyncChangedFiles_def SyncPrepare_def SyncDispatch_def
  StashAwayAnyModifications_def ReApplyStashedModifications_def
  DisplayInProgressNotification_def RemoveInProgressNotification_def
  DisplaySucessNotification_def DisplayFailureNotification_def InProgressWarning_def
  ListAllPackages_def emit_def

lemmas closed_forms = ListAllPackages_loop_eq PackagesToUnlink_loop_eq UnlinkPackages_eq
  ReloadPackages_eq LocalChangedFiles_loop_eq

lemmas session_defs = host0_def host_decline_def idle_def pkgA_def pkgB_def
  PackageNameOf_def FailureOf_def SuccessLogOf_def AbsolutePathOf_def FilePresent_def
  PackageFilename_def StartsWith_def RightChop_def ToLower_def char_of_def
  DiffParameters_def List.map_filter_def host_staged_def

lemma session_sync_declined:
  "SyncClicked host_decline idle =
     \<lparr>bStashMadeBeforeSync = False, PackagesToReload = [pkgA, pkgB],
      OperationInProgressNotification = False, FullyLoaded = {pkgA, pkgB},
      Trace =
        [EvSaveDirtyPackages, EvGetBranchName,
         EvRunCommand ''diff'' [''--stat'', ''--name-only'', ''..origin/main''],
         EvRunCommand ''status'' ParametersStatus,
         EvLogTemp ''/r/a.uasset'' ''/Game/a'', EvLogTemp ''/r/b.uasset'' ''/Game/b'',
         EvFlushAsyncLoading, EvFullyLoad pkgA, EvResetLoaders pkgA, EvResetLoaders pkgB,
         EvLogNum ''Reseted Loader for %d Packages'' 2,
         EvRunCommand ''status'' ParametersStatus,
         EvMessageDialog
           ''Stash (save) all modifications of the working tree? Required to Sync/Pull!'',
         EvLogWarning ''Stash away all modifications before attempting to Sync!'',
         EvLogNotify]\<rparr>"
  by (simp add: SyncClicked_def handler_defs closed_forms session_defs)

lemma map_filter_reset_unlink: "List.map_filter reset_target (unlink_events F Ps) = Ps"
  by (induction Ps arbitrary: F) (simp_all add: List.map_filter_def)

lemma click_step_unlink:
  "List.map_filter click_step (unlink_events F Ps) = replicate (length (unlink_events F Ps)) 1"
  by (induction Ps arbitrary: F) (simp_all add: List.map_filter_def)

lemma click_step_logs: "List.map_filter click_step (List.map_filter (SuccessLogOf h) xs) = []"
  by (induction xs) (simp_all add: List.map_filter_def SuccessLogOf_def split: sum.splits)

lemma UnlinkPackages_trace:
  "Trace (snd (UnlinkPackages h ns s)) =
     Trace s @ (if ns = [] then []
                else unlink_events (FullyLoaded s) (List.map_filter (FindPackage h) ns) @
                     [EvLogNum ''Reseted Loader for %d Packages''
                        (length (List.map_filter (FindPackage h) ns))])"
  by (simp add: UnlinkPackages_eq)

lemma FilePresent_fun: "FilePresent h = (\<lambda>P. FileExists h (PackageFilename h P))"
  by (rule ext) (simp add: FilePresent_def)

lemma IsModifyOrAdd_fun:
  "IsModifyOrAdd = (\<lambda>l. StartsWith l '' M'' \<or> StartsWith l '' A'')"
  by (rule ext) (simp add: IsModifyOrAdd_def)

lemma SyncPrepare_fields:
  "PackagesToReload (SyncPrepare h s) = SyncDetached h \<and>
   bStashMadeBeforeSync (SyncPrepare h s) = bStashMadeBeforeSync s \<and>
   OperationInProgressNotification (SyncPrepare h s) = OperationInProgressNotification s"
  by (simp add: SyncPrepare_def SyncChangedFiles_def closed_forms emit_def SyncDetached_def)

lemma SyncPrepare_trace:
  "\<exists>es. Trace (SyncPrepare h s) = Trace s @ es \<and> set (List.map_filter click_step es) \<subseteq> {1}"
  by (auto simp: SyncPrepare_def SyncChangedFiles_def closed_forms emit_def map_filter_append
      click_step_unlink click_step_logs)

lemma Stash_fields:
  "PackagesToReload (snd (StashAwayAnyModifications h s)) = PackagesToReload s \<and>
   OperationInProgressNotification (snd (StashAwayAnyModifications h s)) =
     OperationInProgressNotification s"
  by (simp add: StashAwayAnyModifications_def emit_def Let_def)

lemma Stash_trace:
  "\<exists>es. Trace (snd (StashAwayAnyModifications h s)) = Trace s @ es \<and>
        set (List.map_filter click_step es) \<subseteq> {2}"
  by (simp add: StashAwayAnyModifications_def emit_def Let_def ParametersStatus_def)

lemma SyncDispatch_trace:
  "\<exists>es. Trace (SyncDispatch h s) = Trace s @ es \<and> set (List.map_filter click_step es) \<subseteq> {3}"
  by (simp add: handler_defs closed_forms Let_def)

lemma SyncDispatch_pending:
  "PackagesToReload (SyncDispatch h s) =
     (if ExecuteResult h = Succeeded then PackagesToReload s
      else filter (FilePresent h) (PackagesToReload s))"
  by (simp add: handler_defs closed_forms Let_def)

lemma sorted_steps:
  assumes "set a \<subseteq> {0::nat}" and "set b \<subseteq> {1}" and "set c \<subseteq> {2}" and "set d \<subseteq> {3}"
  shows "sorted (a @ b @ c @ d)"
proof -
  have const: "sorted xs" if "set xs \<subseteq> {k}" for xs :: "nat list" and k
    using that by (induction xs) auto
  show ?thesis
    using assms const [OF assms(1)] const [OF assms(2)] const [OF assms(3)] const [OF assms(4)]
    by (fastforce simp: sorted_append)
qed

lemma SyncClicked_steps:
  "Trace (SyncClicked h s) = Trace s @ emitted s (SyncClicked h s) \<and>
   sorted (List.map_filter click_step (emitted s (SyncClicked h s)))"
proof -
  have "\<exists>es. Trace (SyncClicked h s) = Trace s @ es \<and> sorted (List.map_filter click_step es)"
  proof (cases "OperationInProgressNotification s")
    case True
    then show ?thesis
      by (simp add: SyncClicked_def InProgressWarning_def emit_def)
  next
    case idle: False
    obtain bSaved s1 where r1: "SaveDirtyPackages h s = (bSaved, s1)"
      by force
    have t1: "Trace s1 = Trace s @ [EvSaveDirtyPackages]"
      using r1 by (auto simp: SaveDirtyPackages_def emit_def Let_def split: if_splits)
    show ?thesis
    proof (cases bSaved)
      case False
      with idle r1 t1 show ?thesis
        by (simp add: SyncClicked_def emit_def)
    next
      case True
      obtain e5 where t5: "Trace (SyncPrepare h s1) = Trace s1 @ e5"
        and k5: "set (List.map_filter click_step e5) \<subseteq> {1}"
        using SyncPrepare_trace by blast
      obtain bStashed s6 where r6: "StashAwayAnyModifications h (SyncPrepare h s1) = (bStashed, s6)"
        by force
      obtain e6 where t6: "Trace s6 = Trace (SyncPrepare h s1) @ e6"
        and k6: "set (List.map_filter click_step e6) \<subseteq> {2}"
        using Stash_trace [of h "SyncPrepare h s1"] r6 by auto
      obtain e7 where t7: "Trace (SyncClicked h s) = Trace s6 @ e7"
        and k7: "set (List.map_filter click_step e7) \<subseteq> {3}"
      proof (cases bStashed)
        case True
        with idle r1 \<open>bSaved\<close> r6 have "SyncClicked h s = SyncDispatch h s6"
          by (simp add: SyncClicked_def)
        with SyncDispatch_trace [of h s6] that show ?thesis
          by auto
      next
        case False
        with idle r1 \<open>bSaved\<close> r6 have "Trace (SyncClicked h s) = Trace s6 @
            [EvLogWarning ''Stash away all modifications before attempting to Sync!'',
             EvLogNotify]"
          by (simp add: SyncClicked_def emit_def)
        with that show ?thesis
          by simp
      qed
      have k1: "set (List.map_filter click_step [EvSaveDirtyPackages]) \<subseteq> {0}"
        by simp
      have "Trace (SyncClicked h s) = Trace s @ ([EvSaveDirtyPackages] @ e5 @ e6 @ e7)"
        by (simp add: t7 t6 t5 t1)
      moreover have "sorted (List.map_filter click_step ([EvSaveDirtyPackages] @ e5 @ e6 @ e7))"
        unfolding map_filter_append by (rule sorted_steps [OF k1 k5 k6 k7])
      ultimately show ?thesis by blast
    qed
  qed
  then show ?thesis
    by (auto simp: emitted_def)
qed

lemma SyncClicked_pending:
  assumes "\<not> OperationInProgressNotification s"
    and "SaveDirtyPackagesResult h" and "DirtyPackagesNum h = 0"
    and "ExecuteResult h = Succeeded"
  shows "PackagesToReload (SyncClicked h s) = SyncDetached h"
proof -
  let ?s1 = "emit [EvSaveDirtyPackages] s"
  have r1: "SaveDirtyPackages h s = (True, ?s1)"
    using assms by (simp add: SaveDirtyPackages_def)
  obtain bStashed s6 where r6: "StashAwayAnyModifications h (SyncPrepare h ?s1) = (bStashed, s6)"
    by force
  have p6: "PackagesToReload s6 = SyncDetached h"
    using Stash_fields [of h "SyncPrepare h ?s1"] r6 by (simp add: SyncPrepare_fields)
  show ?thesis
    using assms r1 r6 p6
    by (cases bStashed) (simp_all add: SyncClicked_def SyncDispatch_pending emit_def)
qed


lemma OnComplete_steps:
  "Trace (OnSourceControlOperationComplete h operation r s) =
     Trace s @ emitted s (OnSourceControlOperationComplete h operation r s) \<and>
   List.map_filter completion_step (emitted s (OnSourceControlOperationComplete h operation r s)) =
     (if operation = FSync \<or> operation = FRevert
      then (if bStashMadeBeforeSync s then [0] else []) @ [1, 2, 3] else [3])"
  unfolding emitted_def
  by (cases operation)
     (simp_all add: OnSourceControlOperationComplete_def handler_defs closed_forms Let_def)

lemma RevertClicked_pending:
  assumes "\<not> OperationInProgressNotification s"
    and "RevertDialogChoice h = Ok" and "ExecuteResult h = Succeeded"
  shows "PackagesToReload (RevertClicked h s) = RevertDetached h"
  using assms
  by (simp add: RevertClicked_def handler_defs closed_forms Let_def split_def RevertDetached_def)

lemma OnComplete_pending:
  "PackagesToReload (OnSourceControlOperationComplete h operation r s) =
     (if operation = FSync \<or> operation = FRevert
      then filter (FilePresent h) (PackagesToReload s) else PackagesToReload s) \<and>
   filter is_reconcile (emitted s (OnSourceControlOperationComplete h operation r s)) =
     (if operation = FSync \<or> operation = FRevert
      then [EvReloadPackages (filter (FilePresent h) (PackagesToReload s)),
            EvUnloadPackages (filter (\<lambda>P. \<not> FilePresent h P) (PackagesToReload s))]
      else [])"
  unfolding emitted_def
  by (cases operation)
     (simp_all add: OnSourceControlOperationComplete_def handler_defs closed_forms Let_def)

lemma session_sync:
  "SyncClicked host0 idle =
     \<lparr>bStashMadeBeforeSync = True, PackagesToReload = [pkgA, pkgB],
      OperationInProgressNotification = True, FullyLoaded = {pkgA, pkgB},
      Trace =
        [EvSaveDirtyPackages, EvGetBranchName,
         EvRunCommand ''diff'' [''--stat'', ''--name-only'', ''..origin/main''],
         EvRunCommand ''status'' ParametersStatus,
         EvLogTemp ''/r/a.uasset'' ''/Game/a'', EvLogTemp ''/r/b.uasset'' ''/Game/b'',
         EvFlushAsyncLoading, EvFullyLoad pkgA, EvResetLoaders pkgA, EvResetLoaders pkgB,
         EvLogNum ''Reseted Loader for %d Packages'' 2,
         EvRunCommand ''status'' ParametersStatus,
         EvMessageDialog
           ''Stash (save) all modifications of the working tree? Required to Sync/Pull!'',
         EvRunCommand ''stash'' ParametersStashSave,
         EvExecute FSync, EvAddNotification]\<rparr>"
  by (simp add: SyncClicked_def handler_defs closed_forms session_defs)

lemma session_after_sync:
  "after_sync =
     \<lparr>bStashMadeBeforeSync = True, PackagesToReload = [pkgA],
      OperationInProgressNotification = False, FullyLoaded = {pkgA, pkgB},
      Trace =
        [EvSaveDirtyPackages, EvGetBranchName,
         EvRunCommand ''diff'' [''--stat'', ''--name-only'', ''..origin/main''],
         EvRunCommand ''status'' ParametersStatus,
         EvLogTemp ''/r/a.uasset'' ''/Game/a'', EvLogTemp ''/r/b.uasset'' ''/Game/b'',
         EvFlushAsyncLoading, EvFullyLoad pkgA, EvResetLoaders pkgA, EvResetLoaders pkgB,
         EvLogNum ''Reseted Loader for %d Packages'' 2,
         EvRunCommand ''status'' ParametersStatus,
         EvMessageDialog
           ''Stash (save) all modifications of the working tree? Required to Sync/Pull!'',
         EvRunCommand ''stash'' ParametersStashSave,
         EvExecute FSync, EvAddNotification, EvExpireAndFadeout,
         EvRunCommand ''stash'' [''pop''],
         EvLogNum ''Reloading %d Packages...'' 2,
         EvReloadPackages [pkgA], EvUnloadPackages [pkgB],
         EvSuccessNotification ''Sync'']\<rparr>"
  unfolding after_sync_def session_sync
  by (simp add: OnSourceControlOperationComplete_def handler_defs closed_forms session_defs)

lemma session_after_revert:
  "emitted after_sync after_revert =
     [EvMessageDialog ''Revert all modifications of the working tree?'',
      EvResetLoaders pkgA, EvLogNum ''Reseted Loader for %d Packages'' 1,
      EvExecute FRevert, EvAddNotification, EvExpireAndFadeout,
      EvRunCommand ''stash'' [''pop''],
      EvLogNum ''Reloading %d Packages...'' 1,
      EvReloadPackages [pkgA], EvUnloadPackages [],
      EvSuccessNotification ''Revert'']"
  unfolding after_revert_def session_after_sync
  by (simp add: OnSourceControlOperationComplete_def RevertClicked_def handler_defs closed_forms
      session_defs host_later_def emitted_def)

lemma click_steps_append: "click_steps (xs @ ys) = click_steps xs @ click_steps ys"
  by (simp add: click_steps_def)

lemma click_steps_simps:
  "click_steps [] = []"
  "click_steps (e # es) = (if click_step e = None then click_steps es else e # click_steps es)"
  by (simp_all add: click_steps_def)

lemma click_steps_unlink: "click_steps (unlink_events F Ps) = unlink_events F Ps"
  by (induction Ps arbitrary: F) (simp_all add: click_steps_def)

lemma click_steps_logs: "click_steps (List.map_filter (SuccessLogOf h) xs) = []"
  by (induction xs) (simp_all add: click_steps_def List.map_filter_def SuccessLogOf_def
      split: sum.splits)

lemma SyncPrepare_click:
  "\<exists>es. Trace (SyncPrepare h s) = Trace s @ es \<and>
        click_steps es = unlink_events (FullyLoaded s) (SyncDetached h)"
proof -
  let ?names = "List.map_filter (PackageNameOf h)
      (map (AbsolutePathOf h) (LocalChangedFiles_loop (StatusOutput h) (DiffOutput h)))"
  have d: "SyncDetached h = List.map_filter (FindPackage h) ?names"
    by (simp add: SyncDetached_def)
  have nil: "List.map_filter (FindPackage h) [] = []"
    by (simp add: List.map_filter_def)
  have t: "Trace (SyncPrepare h s) = Trace s @
      ([EvGetBranchName, EvRunCommand ''diff'' (DiffParameters h),
        EvRunCommand ''status'' ParametersStatus] @
       List.map_filter (SuccessLogOf h)
         (map (AbsolutePathOf h) (LocalChangedFiles_loop (StatusOutput h) (DiffOutput h))) @
       (if ?names = [] then []
        else unlink_events (FullyLoaded s) (List.map_filter (FindPackage h) ?names) @
             [EvLogNum ''Reseted Loader for %d Packages''
                (length (List.map_filter (FindPackage h) ?names))]))"
    by (simp add: SyncPrepare_def SyncChangedFiles_def ListAllPackages_loop_eq
        PackagesToUnlink_loop_eq UnlinkPackages_eq emit_def)
  have c: "click_steps
      ([EvGetBranchName, EvRunCommand ''diff'' (DiffParameters h),
        EvRunCommand ''status'' ParametersStatus] @
       List.map_filter (SuccessLogOf h)
         (map (AbsolutePathOf h) (LocalChangedFiles_loop (StatusOutput h) (DiffOutput h))) @
       (if ?names = [] then []
        else unlink_events (FullyLoaded s) (List.map_filter (FindPackage h) ?names) @
             [EvLogNum ''Reseted Loader for %d Packages''
                (length (List.map_filter (FindPackage h) ?names))])) =
      unlink_events (FullyLoaded s) (SyncDetached h)"
  proof (cases "?names = []")
    case True
    then show ?thesis
      unfolding d by (simp add: click_steps_append click_steps_logs nil click_steps_simps)
  next
    case False
    then show ?thesis
      unfolding d
      by (simp add: click_steps_append click_steps_logs click_steps_unlink click_steps_simps)
  qed
  from t c show ?thesis by blast
qed

lemma Stash_click:
  "\<exists>es. Trace (snd (StashAwayAnyModifications h s)) = Trace s @ es \<and>
        click_steps es =
          (if StashStatusOk h \<and> StashStatusOutput h \<noteq> [] \<and> StashDialogChoice h = Ok
           then [EvRunCommand ''stash'' ParametersStashSave] else [])"
  by (simp add: StashAwayAnyModifications_def emit_def Let_def ParametersStatus_def
      click_steps_def)

lemma Stash_result:
  "fst (StashAwayAnyModifications h s) =
     (\<not> (StashStatusOk h \<and> StashStatusOutput h \<noteq> [] \<and> StashDialogChoice h \<noteq> Ok))"
  by (simp add: StashAwayAnyModifications_def Let_def)

lemma SyncDispatch_click:
  "\<exists>es. Trace (SyncDispatch h s) = Trace s @ es \<and> click_steps es = [EvExecute FSync]"
  by (simp add: handler_defs closed_forms Let_def click_steps_def)

lemma SyncClicked_click_steps:
  assumes idle: "\<not> OperationInProgressNotification s"
  shows "click_steps (emitted s (SyncClicked h s)) =
     EvSaveDirtyPackages #
       (if SaveDirtyPackagesResult h \<and> DirtyPackagesNum h = 0
        then unlink_events (FullyLoaded s) (SyncDetached h) @
             (if StashStatusOk h \<and> StashStatusOutput h \<noteq> []
              then (if StashDialogChoice h = Ok
                    then [EvRunCommand ''stash'' ParametersStashSave, EvExecute FSync] else [])
              else [EvExecute FSync])
        else [])"
proof -
  let ?s1 = "emit [EvSaveDirtyPackages] s"
  let ?saved = "SaveDirtyPackagesResult h \<and> DirtyPackagesNum h = 0"
  have r1: "SaveDirtyPackages h s = (?saved, ?s1)"
    by (simp add: SaveDirtyPackages_def Let_def)
  have t1: "Trace ?s1 = Trace s @ [EvSaveDirtyPackages]"
    by (simp add: emit_def)
  have f1: "FullyLoaded ?s1 = FullyLoaded s"
    by (simp add: emit_def)
  have k1: "click_steps [EvSaveDirtyPackages] = [EvSaveDirtyPackages]"
    by (simp add: click_steps_def)
  have kw: "click_steps [EvLogWarning w, EvLogNotify] = []" for w
    by (simp add: click_steps_def)
  show ?thesis
  proof (cases ?saved)
    case False
    with idle r1 have "Trace (SyncClicked h s) = Trace s @
        ([EvSaveDirtyPackages] @
         [EvLogWarning ''Save All Assets before attempting to Sync!'', EvLogNotify])"
      by (simp add: SyncClicked_def emit_def)
    then have "emitted s (SyncClicked h s) =
        [EvSaveDirtyPackages] @
        [EvLogWarning ''Save All Assets before attempting to Sync!'', EvLogNotify]"
      by (simp add: emitted_def)
    with False show ?thesis
      by (simp only: click_steps_append k1 kw) simp
  next
    case True
    obtain e5 where t5: "Trace (SyncPrepare h ?s1) = Trace ?s1 @ e5"
      and k5: "click_steps e5 = unlink_events (FullyLoaded s) (SyncDetached h)"
      using SyncPrepare_click [of h ?s1] f1 by auto
    obtain bStashed s6 where r6: "StashAwayAnyModifications h (SyncPrepare h ?s1) = (bStashed, s6)"
      by force
    obtain e6 where t6: "Trace s6 = Trace (SyncPrepare h ?s1) @ e6"
      and k6: "click_steps e6 =
          (if StashStatusOk h \<and> StashStatusOutput h \<noteq> [] \<and> StashDialogChoice h = Ok
           then [EvRunCommand ''stash'' ParametersStashSave] else [])"
      using Stash_click [of h "SyncPrepare h ?s1"] r6 by auto
    have b6: "bStashed =
        (\<not> (StashStatusOk h \<and> StashStatusOutput h \<noteq> [] \<and> StashDialogChoice h \<noteq> Ok))"
      using Stash_result [of h "SyncPrepare h ?s1"] r6 by simp
    obtain e7 where t7: "Trace (SyncClicked h s) = Trace s6 @ e7"
      and k7: "click_steps e7 = (if bStashed then [EvExecute FSync] else [])"
    proof (cases bStashed)
      case True
      with idle r1 \<open>?saved\<close> r6 have "SyncClicked h s = SyncDispatch h s6"
        by (simp add: SyncClicked_def)
      with SyncDispatch_click [of h s6] True that show ?thesis
        by auto
    next
      case False
      with idle r1 \<open>?saved\<close> r6 have "Trace (SyncClicked h s) = Trace s6 @
          [EvLogWarning ''Stash away all modifications before attempting to Sync!'',
           EvLogNotify]"
        by (simp add: SyncClicked_def emit_def)
      with False kw that show ?thesis
        by simp
    qed
    have "Trace (SyncClicked h s) = Trace s @ ([EvSaveDirtyPackages] @ e5 @ e6 @ e7)"
      by (simp add: t7 t6 t5 t1)
    then have "emitted s (SyncClicked h s) = [EvSaveDirtyPackages] @ e5 @ e6 @ e7"
      by (simp add: emitted_def)
    then have "click_steps (emitted s (SyncClicked h s)) =
        [EvSaveDirtyPackages] @ unlink_events (FullyLoaded s) (SyncDetached h) @
        (if StashStatusOk h \<and> StashStatusOutput h \<noteq> [] \<and> StashDialogChoice h = Ok
         then [EvRunCommand ''stash'' ParametersStashSave] else []) @
        (if bStashed then [EvExecute FSync] else [])"
      by (simp only: click_steps_append k1 k5 k6 k7)
    with True b6 show ?thesis
      by auto
  qed
qed

lemma OnComplete_emitted:
  "emitted s (OnSourceControlOperationComplete h FSync r s) =
     (if OperationInProgressNotification s then [EvExpireAndFadeout] else []) @
     (if bStashMadeBeforeSync s
      then EvRunCommand ''stash'' [''pop''] #
           (if StashPopOk h then []
            else [EvLogWarning ''Unstashing previously saved modifications failed!'',
                  EvLogNotify])
      else []) @
     [EvLogNum ''Reloading %d Packages...'' (length (PackagesToReload s)),
      EvReloadPackages (filter (FilePresent h) (PackagesToReload s)),
      EvUnloadPackages (filter (\<lambda>P. \<not> FilePresent h P) (PackagesToReload s)),
      if r = Succeeded then EvSuccessNotification ''Sync'' else EvFailureNotification ''Sync'']"
  unfolding emitted_def
  by (simp add: OnSourceControlOperationComplete_def handler_defs closed_forms Let_def)

lemma session_sync_staged:
  "SyncClicked host_staged idle =
     \<lparr>bStashMadeBeforeSync = True, PackagesToReload = [],
      OperationInProgressNotification = True, FullyLoaded = {pkgB},
      Trace =
        [EvSaveDirtyPackages, EvGetBranchName,
         EvRunCommand ''diff'' [''--stat'', ''--name-only'', ''..origin/main''],
         EvRunCommand ''status'' ParametersStatus,
         EvRunCommand ''status'' ParametersStatus,
         EvMessageDialog
           ''Stash (save) all modifications of the working tree? Required to Sync/Pull!'',
         EvRunCommand ''stash'' ParametersStashSave,
         EvExecute FSync, EvAddNotification]\<rparr>"
  by (simp add: SyncClicked_def handler_defs closed_forms session_defs)

text \<open>
  What the loops at lines 281 to 317 compute: the lines of the diff, then the status lines
  that start with \<open>" M"\<close> or \<open>" A"\<close> without their first three characters, each made
  absolute against the repository root before it is converted to a package name.
\<close>

lemma SyncChangedFiles_selected:
  "set (fst (SyncChangedFiles h s)) =
     set (DiffOutput h) \<union> RightChop 3 ` {l \<in> set (StatusOutput h). IsModifyOrAdd l} \<and>
   fst (SyncChangedFiles h s) =
     DiffOutput h @ map (RightChop 3) (filter IsModifyOrAdd (StatusOutput h)) \<and>
   EvRunCommand ''diff'' [''--stat'', ''--name-only'', ''..origin/'' @ BranchName h]
     \<in> set (emitted s (snd (SyncChangedFiles h s))) \<and>
   \<not> IsModifyOrAdd ('' D'' @ path) \<and> \<not> IsModifyOrAdd (''D '' @ path) \<and>
   \<not> IsModifyOrAdd (''??'' @ path) \<and>
   fst (PackagesToUnlink_loop h (fst (SyncChangedFiles h s)) ([], s')) =
     List.map_filter (PackageNameOf h)
       (map (ConvertRelativePathToFull h (PathToRepositoryRoot h)) (fst (SyncChangedFiles h s)))"
proof -
  have files: "fst (SyncChangedFiles h s) =
      DiffOutput h @ map (RightChop 3) (filter IsModifyOrAdd (StatusOutput h))"
    by (simp add: SyncChangedFiles_def LocalChangedFiles_loop_eq IsModifyOrAdd_fun)
  have a: "set (fst (SyncChangedFiles h s)) =
      set (DiffOutput h) \<union> RightChop 3 ` {l \<in> set (StatusOutput h). IsModifyOrAdd l}"
    unfolding files by auto
  have b: "EvRunCommand ''diff'' [''--stat'', ''--name-only'', ''..origin/'' @ BranchName h]
      \<in> set (emitted s (snd (SyncChangedFiles h s)))"
    by (simp add: SyncChangedFiles_def emit_def emitted_def DiffParameters_def)
  have c: "\<not> IsModifyOrAdd ('' D'' @ path) \<and> \<not> IsModifyOrAdd (''D '' @ path) \<and>
      \<not> IsModifyOrAdd (''??'' @ path)"
    by (simp add: IsModifyOrAdd_def StartsWith_def ToLower_def char_of_def)
  have abs: "AbsolutePathOf h = ConvertRelativePathToFull h (PathToRepositoryRoot h)"
    by (rule ext) (simp add: AbsolutePathOf_def)
  have d: "fst (PackagesToUnlink_loop h fs ([], s')) =
      List.map_filter (PackageNameOf h)
        (map (ConvertRelativePathToFull h (PathToRepositoryRoot h)) fs)" for fs
    by (simp add: PackagesToUnlink_loop_eq abs)
  from a files b c d show ?thesis by simp
qed

section \<open>Properties of the handlers\<close>

text \<open>
  C7. \<open>UnlinkPackages\<close> returns the packages that are resident for the given names, in
  the order of the names, and skips the other names. It calls \<open>ResetLoaders\<close> on exactly
  those packages, in that order, and each of these calls is for a package that was fully
  loaded before the handler ran or that the handler has fully loaded beforehand, after a
  \<open>FlushAsyncLoading\<close>.
\<close>

theorem detach_only_fully_loaded:
  "fst (UnlinkPackages h names s) = List.map_filter (FindPackage h) names \<and>
   Trace (snd (UnlinkPackages h names s)) =
     Trace s @ emitted s (snd (UnlinkPackages h names s)) \<and>
   List.map_filter reset_target (emitted s (snd (UnlinkPackages h names s))) =
     List.map_filter (FindPackage h) names \<and>
   detach_safe (FullyLoaded s) False (emitted s (snd (UnlinkPackages h names s)))"
proof -
  let ?Ps = "List.map_filter (FindPackage h) names"
  have e: "emitted s (snd (UnlinkPackages h names s)) =
      (if names = [] then []
       else unlink_events (FullyLoaded s) ?Ps @
            [EvLogNum ''Reseted Loader for %d Packages'' (length ?Ps)])"
    by (simp add: emitted_def UnlinkPackages_trace)
  have safe: "detach_safe (FullyLoaded s) False
      (unlink_events (FullyLoaded s) ?Ps @
       [EvLogNum ''Reseted Loader for %d Packages'' (length ?Ps)])"
  proof (cases "?Ps = []")
    case True
    then show ?thesis by simp
  next
    case False
    then show ?thesis by (simp add: detach_safe_unlink_events)
  qed
  have nil: "names = [] \<Longrightarrow> ?Ps = []"
    by (simp add: List.map_filter_def)
  have reset: "List.map_filter reset_target [EvLogNum t n] = []" for t n
    by (simp add: List.map_filter_def)
  have f: "fst (UnlinkPackages h names s) = ?Ps"
    by (simp add: UnlinkPackages_eq)
  have t: "Trace (snd (UnlinkPackages h names s)) =
      Trace s @ emitted s (snd (UnlinkPackages h names s))"
    unfolding e by (simp add: UnlinkPackages_trace)
  have r: "List.map_filter reset_target (emitted s (snd (UnlinkPackages h names s))) = ?Ps"
    unfolding e using nil
    by (cases "names = []") (simp_all add: map_filter_append map_filter_reset_unlink reset)
  have d: "detach_safe (FullyLoaded s) False (emitted s (snd (UnlinkPackages h names s)))"
    unfolding e using safe by simp
  from f t r d show ?thesis by simp
qed

theorem detach_only_fully_loaded_witness:
  "fst (UnlinkPackages host0 [''/Game/a'', ''/Game/zz'', ''/Game/b''] idle) = [pkgA, pkgB] \<and>
   emitted idle (snd (UnlinkPackages host0 [''/Game/a'', ''/Game/zz'', ''/Game/b''] idle)) =
     [EvFlushAsyncLoading, EvFullyLoad pkgA, EvResetLoaders pkgA, EvResetLoaders pkgB,
      EvLogNum ''Reseted Loader for %d Packages'' 2] \<and>
   detach_safe {pkgB} False
     [EvFlushAsyncLoading, EvFullyLoad pkgA, EvResetLoaders pkgA, EvResetLoaders pkgB,
      EvLogNum ''Reseted Loader for %d Packages'' 2]"
proof -
  have ev: "emitted idle (snd (UnlinkPackages host0 [''/Game/a'', ''/Game/zz'', ''/Game/b''] idle)) =
     [EvFlushAsyncLoading, EvFullyLoad pkgA, EvResetLoaders pkgA, EvResetLoaders pkgB,
      EvLogNum ''Reseted Loader for %d Packages'' 2]"
    by (simp add: UnlinkPackages_eq session_defs emitted_def)
  have fl: "FullyLoaded idle = {pkgB}"
    by (simp add: idle_def)
  have found: "List.map_filter (FindPackage host0) [''/Game/a'', ''/Game/zz'', ''/Game/b''] =
      [pkgA, pkgB]"
    by (simp add: session_defs)
  show ?thesis
    using detach_only_fully_loaded [of host0 "[''/Game/a'', ''/Game/zz'', ''/Game/b'']" idle]
    unfolding ev fl found by simp
qed

text \<open>
  C4. A Sync, Push, Revert or Refresh request made while the progress notification is
  valid only logs the warning "Source control operation already in progress" and notifies:
  the pending packages, the stash flag and the notification handle are unchanged and no
  other call is made, so no command is dispatched and nothing is kept for later.
\<close>

theorem busy_request_rejected:
  assumes "OperationInProgressNotification s"
  shows "SyncClicked h s = s\<lparr>Trace := Trace s @
            [EvLogWarning ''Source control operation already in progress'', EvLogNotify]\<rparr> \<and>
         PushClicked h s = s\<lparr>Trace := Trace s @
            [EvLogWarning ''Source control operation already in progress'', EvLogNotify]\<rparr> \<and>
         RevertClicked h s = s\<lparr>Trace := Trace s @
            [EvLogWarning ''Source control operation already in progress'', EvLogNotify]\<rparr> \<and>
         RefreshClicked h s = s\<lparr>Trace := Trace s @
            [EvLogWarning ''Source control operation already in progress'', EvLogNotify]\<rparr>"
  using assms
  by (simp add: SyncClicked_def PushClicked_def RevertClicked_def RefreshClicked_def
      InProgressWarning_def emit_def)

theorem busy_request_rejected_witness:
  "OperationInProgressNotification busy \<and>
   SyncClicked host0 busy = busy\<lparr>Trace :=
     [EvLogWarning ''Source control operation already in progress'', EvLogNotify]\<rparr> \<and>
   PushClicked host0 busy = busy\<lparr>Trace :=
     [EvLogWarning ''Source control operation already in progress'', EvLogNotify]\<rparr> \<and>
   RevertClicked host0 busy = busy\<lparr>Trace :=
     [EvLogWarning ''Source control operation already in progress'', EvLogNotify]\<rparr> \<and>
   RefreshClicked host0 busy = busy\<lparr>Trace :=
     [EvLogWarning ''Source control operation already in progress'', EvLogNotify]\<rparr>"
proof -
  have b: "OperationInProgressNotification busy"
    by (simp add: busy_def)
  have t: "Trace busy = []"
    by (simp add: busy_def)
  show ?thesis
    using b busy_request_rejected [OF b, of host0] by (simp add: t)
qed

text \<open>
  C5. The status part of the changed files is meant to be the modified and added files.
  The loop at lines 297 to 303 selects a status line only if it starts with \<open>" M"\<close> or
  \<open>" A"\<close>, that is, with a blank index column. In the session where the changes to
  \<open>b.uasset\<close> and \<open>a.uasset\<close> are staged, git reports \<open>"M  b.uasset"\<close> and
  \<open>"MM a.uasset"\<close>: no file is selected, although both convert to resident packages, and
  the pull is handed to the provider with nothing unlinked.
\<close>

theorem staged_changes_not_selected:
  "fst (SyncChangedFiles host_staged idle) = [] \<and>
   PackageNameOf host_staged (AbsolutePathOf host_staged ''b.uasset'') = Some ''/Game/b'' \<and>
   FindPackage host_staged ''/Game/b'' = Some pkgB \<and>
   PackageNameOf host_staged (AbsolutePathOf host_staged ''a.uasset'') = Some ''/Game/a'' \<and>
   FindPackage host_staged ''/Game/a'' = Some pkgA \<and>
   List.map_filter reset_target (Trace (SyncClicked host_staged idle)) = [] \<and>
   PackagesToReload (SyncClicked host_staged idle) = [] \<and>
   EvExecute FSync \<in> set (Trace (SyncClicked host_staged idle))"
proof -
  have files: "fst (SyncChangedFiles host_staged idle) = []"
    by (simp add: SyncChangedFiles_def LocalChangedFiles_loop_eq session_defs)
  have names: "PackageNameOf host_staged (AbsolutePathOf host_staged ''b.uasset'') = Some ''/Game/b'' \<and>
      FindPackage host_staged ''/Game/b'' = Some pkgB \<and>
      PackageNameOf host_staged (AbsolutePathOf host_staged ''a.uasset'') = Some ''/Game/a'' \<and>
      FindPackage host_staged ''/Game/a'' = Some pkgA"
    by (simp add: session_defs)
  show ?thesis
    unfolding session_sync_staged using files names by simp
qed

text \<open>
  C6. \<open>ReloadPackages\<close> splits the packages it is given by whether the file of the
  package exists: it reloads those whose file exists, then unloads the others, which are
  not in the list it reloads, and makes both calls before it returns.
\<close>

theorem reconcile_partitions_by_file:
  "Trace (snd (ReloadPackages h L s)) =
     Trace s @ [EvLogNum ''Reloading %d Packages...'' (length L),
                EvReloadPackages (filter (\<lambda>P. FileExists h (PackageFilename h P)) L),
                EvUnloadPackages (filter (\<lambda>P. \<not> FileExists h (PackageFilename h P)) L)] \<and>
   set (filter (\<lambda>P. FileExists h (PackageFilename h P)) L) \<inter>
     set (filter (\<lambda>P. \<not> FileExists h (PackageFilename h P)) L) = {} \<and>
   set (filter (\<lambda>P. FileExists h (PackageFilename h P)) L) \<union>
     set (filter (\<lambda>P. \<not> FileExists h (PackageFilename h P)) L) = set L"
proof -
  have "Trace (snd (ReloadPackages h L s)) =
     Trace s @ [EvLogNum ''Reloading %d Packages...'' (length L),
                EvReloadPackages (filter (\<lambda>P. FileExists h (PackageFilename h P)) L),
                EvUnloadPackages (filter (\<lambda>P. \<not> FileExists h (PackageFilename h P)) L)]"
    by (simp add: ReloadPackages_eq FilePresent_fun)
  then show ?thesis by auto
qed

theorem reconcile_partitions_by_file_witness:
  "Trace (snd (ReloadPackages host0 [pkgA, pkgB] idle)) =
     [EvLogNum ''Reloading %d Packages...'' 2, EvReloadPackages [pkgA], EvUnloadPackages [pkgB]]"
  using reconcile_partitions_by_file [where h = host0 and L = "[pkgA, pkgB]" and s = idle]
  by (simp add: session_defs)

text \<open>
  C10. \<open>ReloadPackages\<close> filters the array of its caller in place: when it returns, the
  array holds exactly the packages whose file exists, in their order, and the packages it
  removed are the ones it unloads. In the completion callback of a sync or a revert the
  array is the member \<open>PackagesToReload\<close>.
\<close>

theorem reload_filters_in_place:
  "fst (ReloadPackages h L s) = filter (\<lambda>P. FileExists h (PackageFilename h P)) L \<and>
   EvUnloadPackages (filter (\<lambda>P. \<not> FileExists h (PackageFilename h P)) L)
     \<in> set (emitted s (snd (ReloadPackages h L s))) \<and>
   PackagesToReload (OnSourceControlOperationComplete h FSync r s) =
     filter (\<lambda>P. FileExists h (PackageFilename h P)) (PackagesToReload s) \<and>
   PackagesToReload (OnSourceControlOperationComplete h FRevert r s) =
     filter (\<lambda>P. FileExists h (PackageFilename h P)) (PackagesToReload s)"
  by (simp add: OnSourceControlOperationComplete_def ReloadPackages_eq FilePresent_fun
      handler_defs emitted_def Let_def)

theorem reload_filters_in_place_witness:
  "fst (ReloadPackages host0 [pkgA, pkgB] idle) = [pkgA] \<and>
   PackagesToReload
     (OnSourceControlOperationComplete host0 FRevert Failed (idle\<lparr>PackagesToReload := [pkgB, pkgA]\<rparr>)) =
     [pkgA]"
  using reload_filters_in_place [where h = host0 and L = "[pkgA, pkgB]" and s = idle and
      r = Failed]
    reload_filters_in_place [where h = host0 and r = Failed and
      s = "idle\<lparr>PackagesToReload := [pkgB, pkgA]\<rparr>"]
  by (simp add: session_defs)

text \<open>
  C1. A sync in which the user answers the stash question with Cancel: the handler has
  already unlinked \<open>/Game/a\<close> and \<open>/Game/b\<close> and stored them in
  \<open>PackagesToReload\<close>, and it returns after the warning without a call of
  \<open>ReloadPackages\<close> or \<open>UnloadPackages\<close>. No operation was handed to the provider and
  the notification handle is not valid, so no completion callback will reload them.
\<close>

theorem sync_stash_declined_leaves_detached:
  "List.map_filter reset_target (Trace (SyncClicked host_decline idle)) = [pkgA, pkgB] \<and>
   PackagesToReload (SyncClicked host_decline idle) = [pkgA, pkgB] \<and>
   filter is_reconcile (Trace (SyncClicked host_decline idle)) = [] \<and>
   EvExecute FSync \<notin> set (Trace (SyncClicked host_decline idle)) \<and>
   \<not> OperationInProgressNotification (SyncClicked host_decline idle)"
  unfolding session_sync_declined by simp

text \<open>
  C2. After a sync that stashed has completed, \<open>bStashMadeBeforeSync\<close> is still true.
  A later revert issues no stash command of its own, and its completion callback runs
  \<open>git stash pop\<close>.
\<close>

theorem stash_flag_survives_completion:
  "bStashMadeBeforeSync after_sync \<and>
   EvRunCommand ''stash'' ParametersStashSave \<notin> set (emitted after_sync after_revert) \<and>
   emitted after_sync after_revert =
     [EvMessageDialog ''Revert all modifications of the working tree?'',
      EvResetLoaders pkgA, EvLogNum ''Reseted Loader for %d Packages'' 1,
      EvExecute FRevert, EvAddNotification, EvExpireAndFadeout,
      EvRunCommand ''stash'' [''pop''],
      EvLogNum ''Reloading %d Packages...'' 1,
      EvReloadPackages [pkgA], EvUnloadPackages [],
      EvSuccessNotification ''Revert'']"
  unfolding session_after_revert
  by (simp add: session_after_sync ParametersStashSave_def)

text \<open>
  C3, as stated: the stash command would come before the packages are unlinked. In the
  session the packages are unlinked first.
\<close>

theorem sync_order_counterexample:
  "\<not> in_order claimed_click_step (Trace (SyncClicked host0 idle))"
  unfolding session_sync in_order_def by simp

text \<open>
  C3, amended. The click handler of a sync only appends to the trace. When no operation is
  in progress its steps are exactly these, in this order: saving the dirty packages; if
  all were saved, unlinking the affected packages (for each one a flush and a full load
  if it is not fully loaded, then \<open>ResetLoaders\<close>); then, if the working tree has
  modifications, the stash command if the user agrees and nothing more if the user
  declines; then handing the pull to the provider. The completion callback of a sync
  appends exactly these calls: the removal of the progress notification if it is valid,
  the stash pop if the stash flag is set (and a warning if the pop fails), the reload of
  the pending packages whose file exists, the unload of the others, and the result
  notification.
\<close>

theorem sync_steps_in_order:
  "Trace (SyncClicked h s) = Trace s @ emitted s (SyncClicked h s) \<and>
   in_order click_step (emitted s (SyncClicked h s)) \<and>
   (\<not> OperationInProgressNotification s \<longrightarrow>
    click_steps (emitted s (SyncClicked h s)) =
      EvSaveDirtyPackages #
        (if SaveDirtyPackagesResult h \<and> DirtyPackagesNum h = 0
         then unlink_events (FullyLoaded s) (SyncDetached h) @
              (if StashStatusOk h \<and> StashStatusOutput h \<noteq> []
               then (if StashDialogChoice h = Ok
                     then [EvRunCommand ''stash'' ParametersStashSave, EvExecute FSync] else [])
               else [EvExecute FSync])
         else [])) \<and>
   Trace (OnSourceControlOperationComplete h FSync r s) =
     Trace s @ emitted s (OnSourceControlOperationComplete h FSync r s) \<and>
   emitted s (OnSourceControlOperationComplete h FSync r s) =
     (if OperationInProgressNotification s then [EvExpireAndFadeout] else []) @
     (if bStashMadeBeforeSync s
      then EvRunCommand ''stash'' [''pop''] #
           (if StashPopOk h then []
            else [EvLogWarning ''Unstashing previously saved modifications failed!'',
                  EvLogNotify])
      else []) @
     [EvLogNum ''Reloading %d Packages...'' (length (PackagesToReload s)),
      EvReloadPackages (filter (FilePresent h) (PackagesToReload s)),
      EvUnloadPackages (filter (\<lambda>P. \<not> FilePresent h P) (PackagesToReload s)),
      if r = Succeeded then EvSuccessNotification ''Sync'' else EvFailureNotification ''Sync''] \<and>
   List.map_filter completion_step (emitted s (OnSourceControlOperationComplete h FSync r s)) =
     (if bStashMadeBeforeSync s then [0] else []) @ [1, 2, 3]"
proof -
  have click: "\<not> OperationInProgressNotification s \<longrightarrow>
    click_steps (emitted s (SyncClicked h s)) =
      EvSaveDirtyPackages #
        (if SaveDirtyPackagesResult h \<and> DirtyPackagesNum h = 0
         then unlink_events (FullyLoaded s) (SyncDetached h) @
              (if StashStatusOk h \<and> StashStatusOutput h \<noteq> []
               then (if StashDialogChoice h = Ok
                     then [EvRunCommand ''stash'' ParametersStashSave, EvExecute FSync] else [])
               else [EvExecute FSync])
         else [])"
    using SyncClicked_click_steps [of s h] by blast
  have order: "Trace (SyncClicked h s) = Trace s @ emitted s (SyncClicked h s) \<and>
      in_order click_step (emitted s (SyncClicked h s))"
    using SyncClicked_steps [of h s] by (simp add: in_order_def)
  have completion: "Trace (OnSourceControlOperationComplete h FSync r s) =
        Trace s @ emitted s (OnSourceControlOperationComplete h FSync r s) \<and>
      List.map_filter completion_step (emitted s (OnSourceControlOperationComplete h FSync r s)) =
        (if bStashMadeBeforeSync s then [0] else []) @ [1, 2, 3]"
    using OnComplete_steps [of h FSync r s] by simp
  from click order completion OnComplete_emitted [of s h r] show ?thesis
    by (simp only: simp_thms)
qed

theorem sync_steps_in_order_witness:
  "\<not> OperationInProgressNotification idle \<and>
   click_steps (Trace (SyncClicked host0 idle)) =
     [EvSaveDirtyPackages, EvFlushAsyncLoading, EvFullyLoad pkgA, EvResetLoaders pkgA,
      EvResetLoaders pkgB, EvRunCommand ''stash'' ParametersStashSave, EvExecute FSync] \<and>
   in_order click_step (Trace (SyncClicked host0 idle)) \<and>
   emitted (SyncClicked host0 idle)
     (OnSourceControlOperationComplete host0 FSync Succeeded (SyncClicked host0 idle)) =
     [EvExpireAndFadeout, EvRunCommand ''stash'' [''pop''],
      EvLogNum ''Reloading %d Packages...'' 2,
      EvReloadPackages [pkgA], EvUnloadPackages [pkgB], EvSuccessNotification ''Sync'']"
proof -
  have i: "\<not> OperationInProgressNotification idle"
    by (simp add: idle_def)
  have e: "emitted idle (SyncClicked host0 idle) = Trace (SyncClicked host0 idle)"
    by (simp add: emitted_def idle_def)
  have c: "click_steps (Trace (SyncClicked host0 idle)) =
     [EvSaveDirtyPackages, EvFlushAsyncLoading, EvFullyLoad pkgA, EvResetLoaders pkgA,
      EvResetLoaders pkgB, EvRunCommand ''stash'' ParametersStashSave, EvExecute FSync]"
    unfolding session_sync by (simp add: click_steps_simps)
  have fields: "bStashMadeBeforeSync (SyncClicked host0 idle) \<and>
      OperationInProgressNotification (SyncClicked host0 idle) \<and>
      PackagesToReload (SyncClicked host0 idle) = [pkgA, pkgB] \<and> StashPopOk host0"
    unfolding session_sync by (simp add: host0_def)
  have fp: "FilePresent host0 pkgA \<and> \<not> FilePresent host0 pkgB"
    by (simp add: session_defs)
  show ?thesis
    using i e c fields fp sync_steps_in_order [of host0 idle]
      sync_steps_in_order [of host0 "SyncClicked host0 idle" Succeeded]
    by simp
qed

text \<open>
  C8, as stated: every conversion failure would be logged. In the loop of \<open>SyncClicked\<close>
  the changed file \<open>x\<close> fails to convert and the loop leaves the trace as it was.
\<close>

theorem sync_conversion_failure_not_logged:
  "TryConvertFilenameToLongPackageName host0 (AbsolutePathOf host0 ''x'') = Inl ''bad path /r/x'' \<and>
   PackagesToUnlink_loop host0 [''x''] ([], idle) = ([], idle)"
  by (simp add: session_defs)

text \<open>
  C8, amended. \<open>ListAllPackages\<close> returns the names of the paths that convert, in order,
  and logs one error with the failure reason for each path that does not, in order. The
  loop of \<open>SyncClicked\<close> returns the names of the paths that convert, in order, and logs
  one line for each of those; a path that does not convert is left out and the loop goes
  on with the next one.
\<close>

theorem conversion_failures_excluded:
  "ListAllPackages h s =
     (List.map_filter (PackageNameOf h) (FindPackagesInDirectory h),
      s\<lparr>Trace := Trace s @ List.map_filter (FailureOf h) (FindPackagesInDirectory h)\<rparr>) \<and>
   PackagesToUnlink_loop h fs ([], s) =
     (List.map_filter (PackageNameOf h) (map (AbsolutePathOf h) fs),
      s\<lparr>Trace := Trace s @ List.map_filter (SuccessLogOf h) (map (AbsolutePathOf h) fs)\<rparr>)"
  by (simp add: ListAllPackages_def ListAllPackages_loop_eq PackagesToUnlink_loop_eq)

theorem conversion_failures_excluded_witness:
  "ListAllPackages host0 idle =
     ([''/Game/a'', ''/Game/b''], idle\<lparr>Trace := [EvLogError ''bad path /r/x'']\<rparr>) \<and>
   PackagesToUnlink_loop host0 [''x'', ''a.uasset''] ([], idle) =
     ([''/Game/a''], idle\<lparr>Trace := [EvLogTemp ''/r/a.uasset'' ''/Game/a'']\<rparr>)"
  using conversion_failures_excluded [of host0 idle "[''x'', ''a.uasset'']"]
  by (simp add: session_defs)

text \<open>
  C9, as stated: the pending packages would be cleared after the reconciliation. After the
  sync of the session has completed, \<open>PackagesToReload\<close> still holds \<open>/Game/a\<close>.
\<close>

theorem pending_set_not_cleared:
  "PackagesToReload after_sync = [pkgA]"
  unfolding session_after_sync by simp

text \<open>
  C9, amended. \<open>PackagesToReload\<close> is assigned the unlinked packages at the start of a
  sync or a revert whose operation the provider accepts. The completion callback of a sync
  or a revert reloads and unloads once and leaves in \<open>PackagesToReload\<close> the packages
  whose file exists; the completion callback of a push or a refresh leaves it as it is.
\<close>

theorem pending_set_lifecycle:
  "(\<not> OperationInProgressNotification s \<and> SaveDirtyPackagesResult h \<and>
    DirtyPackagesNum h = 0 \<and> ExecuteResult h = Succeeded \<longrightarrow>
      PackagesToReload (SyncClicked h s) = SyncDetached h) \<and>
   (\<not> OperationInProgressNotification s \<and> RevertDialogChoice h = Ok \<and>
    ExecuteResult h = Succeeded \<longrightarrow>
      PackagesToReload (RevertClicked h s) = RevertDetached h) \<and>
   PackagesToReload (OnSourceControlOperationComplete h FSync r s) =
     filter (FilePresent h) (PackagesToReload s) \<and>
   PackagesToReload (OnSourceControlOperationComplete h FRevert r s) =
     filter (FilePresent h) (PackagesToReload s) \<and>
   filter is_reconcile (emitted s (OnSourceControlOperationComplete h FSync r s)) =
     [EvReloadPackages (filter (FilePresent h) (PackagesToReload s)),
      EvUnloadPackages (filter (\<lambda>P. \<not> FilePresent h P) (PackagesToReload s))] \<and>
   filter is_reconcile (emitted s (OnSourceControlOperationComplete h FRevert r s)) =
     [EvReloadPackages (filter (FilePresent h) (PackagesToReload s)),
      EvUnloadPackages (filter (\<lambda>P. \<not> FilePresent h P) (PackagesToReload s))] \<and>
   PackagesToReload (OnSourceControlOperationComplete h FGitPush r s) = PackagesToReload s \<and>
   PackagesToReload (OnSourceControlOperationComplete h FUpdateStatus r s) = PackagesToReload s"
  using SyncClicked_pending [of s h] RevertClicked_pending [of s h]
    OnComplete_pending [of h FSync r s] OnComplete_pending [of h FRevert r s]
    OnComplete_pending [of h FGitPush r s] OnComplete_pending [of h FUpdateStatus r s]
  by simp

theorem pending_set_lifecycle_witness:
  "\<not> OperationInProgressNotification idle \<and> SaveDirtyPackagesResult host0 \<and>
   DirtyPackagesNum host0 = 0 \<and> ExecuteResult host0 = Succeeded \<and>
   RevertDialogChoice host0 = Ok \<and>
   PackagesToReload (SyncClicked host0 idle) = [pkgA, pkgB] \<and>
   PackagesToReload (RevertClicked host0 idle) = [pkgA, pkgB] \<and>
   PackagesToReload
     (OnSourceControlOperationComplete host0 FSync Succeeded (SyncClicked host0 idle)) = [pkgA]"
proof -
  have hyp: "\<not> OperationInProgressNotification idle \<and> SaveDirtyPackagesResult host0 \<and>
      DirtyPackagesNum host0 = 0 \<and> ExecuteResult host0 = Succeeded \<and>
      RevertDialogChoice host0 = Ok"
    by (simp add: host0_def idle_def)
  have sd: "SyncDetached host0 = [pkgA, pkgB]"
    by (simp add: SyncDetached_def LocalChangedFiles_loop_eq session_defs)
  have rd: "RevertDetached host0 = [pkgA, pkgB]"
    by (simp add: RevertDetached_def session_defs)
  have fp: "FilePresent host0 pkgA \<and> \<not> FilePresent host0 pkgB"
    by (simp add: session_defs)
  show ?thesis
    using hyp pending_set_lifecycle [of idle host0 Succeeded]
      pending_set_lifecycle [of "SyncClicked host0 idle" host0 Succeeded]
    by (simp add: sd rd fp)
qed

end
